theory Spec2Isabelle
  imports Complex_Main "HOL-Library.Log_Nat"
begin

section \<open>Python floats\<close>

text \<open>
  The costs of \<^verbatim>\<open>app.py\<close> are Python floats: IEEE-754 binary64 numbers, every
  operation rounded to the nearest representable value, ties to the even mantissa.
  A float is modelled by the rational number it denotes, and each operation of the
  source by the exact operation followed by the rounding \<open>fl\<close>.

  A binary64 value is \<open>m * 2 ^ e\<close> with \<open>\<bar>m\<bar> < 2 ^ 53\<close> and \<open>- 1074 \<le> e\<close>. All values are
  kept as multiples of \<open>2 ^ - 1074\<close>: \<open>ulp_shift x\<close> is the number of low bits of
  \<open>\<bar>x\<bar> * 2 ^ 1074\<close> that do not fit into 53 bits, so that \<open>2 ^ ulp_shift x / 2 ^ 1074\<close>
  is the spacing of the floats around \<open>x\<close>. Subnormal numbers are covered (shift 0).
  The overflow to infinity above \<open>2 ^ 1024\<close>, and the NaN that can follow it, are left
  out: \<open>fl\<close> rounds as if the exponent had no upper bound. The script does not reach
  that range: a token count is the length of a list, below \<open>2 ^ 63\<close>, the two prices of
  the program are below 1, and a running total that has grown so large that a saving
  no longer changes it stays where it is. Statements over other prices are about
  prices for which the products stay finite.
\<close>

type_synonym pyfloat = rat

definition emin :: nat where
  "emin = 1074"

definition mant :: nat where
  "mant = 52"

definition round_half_even :: "rat \<Rightarrow> int" where
  "round_half_even x =
     (let f = \<lfloor>x\<rfloor>; r = x - of_int f
      in if r < 1/2 then f else if 1/2 < r then f + 1 else if even f then f else f + 1)"

definition ulp_shift :: "rat \<Rightarrow> nat" where
  "ulp_shift x = nat (bitlen \<lfloor>\<bar>x\<bar> * 2 ^ emin\<rfloor> - int (Suc mant))"

definition fl :: "rat \<Rightarrow> pyfloat" where
  "fl x = of_int (round_half_even (x * 2 ^ emin / 2 ^ ulp_shift x)) * 2 ^ ulp_shift x / 2 ^ emin"

text \<open>
  \<^verbatim>\<open>a / b\<close> on two ints is true division, correctly rounded; the source divides by the
  literal 1000 only, so the ZeroDivisionError of a zero divisor has no branch here.
\<close>

definition truediv :: "nat \<Rightarrow> nat \<Rightarrow> pyfloat" where
  "truediv a b = fl (of_nat a / of_nat b)"

definition fmul :: "pyfloat \<Rightarrow> pyfloat \<Rightarrow> pyfloat" where
  "fmul x y = fl (x * y)"

definition fsub :: "pyfloat \<Rightarrow> pyfloat \<Rightarrow> pyfloat" where
  "fsub x y = fl (x - y)"

definition fadd :: "pyfloat \<Rightarrow> pyfloat \<Rightarrow> pyfloat" where
  "fadd x y = fl (x + y)"


section \<open>Configuration\<close>

text \<open>
  The four module-level constants of \<^verbatim>\<open>app.py\<close> (lines 10 to 13). They are read
  through a record so that a statement can vary one of them; \<open>app_config\<close> holds the
  values the source gives them, the float literals rounded as Python reads them.
\<close>

record config =
  PRICE_GPT4 :: pyfloat
  PRICE_MINI :: pyfloat
  TOKEN_THRESHOLD :: nat
  WARN_COST :: pyfloat

definition app_config :: config where
  "app_config =
     \<lparr>PRICE_GPT4 = fl (3 / 100),
      PRICE_MINI = fl (15 / 100000),
      TOKEN_THRESHOLD = 50,
      WARN_COST = fl (2 / 10000)\<rparr>"


section \<open>The external engines\<close>

text \<open>
  Token encoding (tiktoken) and entity recognition and replacement (presidio) are
  libraries outside the repository. The script reaches them through four calls,
  which are the fields of \<open>externals\<close>:
  \<^item> \<^verbatim>\<open>tiktoken.encoding_for_model(model)\<close>, which raises KeyError when no encoding is
    registered for the model and otherwise returns an encoding;
  \<^item> \<^verbatim>\<open>tiktoken.get_encoding(name)\<close>, which the source calls with the one fixed name of
    a built-in encoding;
  \<^item> \<^verbatim>\<open>analyzer.analyze(text, entities, language)\<close>;
  \<^item> \<^verbatim>\<open>anonymizer.anonymize(text, analyzer_results).text\<close>.
  An encoding is its \<^verbatim>\<open>encode\<close> method, which returns the tokens of a text or raises:
  tiktoken's \<^verbatim>\<open>encode\<close> raises ValueError on a text that contains a special token such
  as \<^verbatim>\<open><|endoftext|>\<close>. A raised exception is the \<open>Inl\<close> of a sum.
\<close>

datatype exn = KeyError | ValueError

record recognizer_result =
  entity_type :: string
  start :: nat
  stop :: nat
  score :: rat

type_synonym encoding = "string \<Rightarrow> exn + nat list"

record externals =
  encoding_for_model :: "string \<Rightarrow> exn + encoding"
  get_encoding :: "string \<Rightarrow> encoding"
  analyze :: "string \<Rightarrow> string list \<Rightarrow> string \<Rightarrow> recognizer_result list"
  anonymize :: "string \<Rightarrow> recognizer_result list \<Rightarrow> string"


section \<open>Helper functions\<close>

text \<open>
  \<^verbatim>\<open>get_token_count\<close>, lines 20 to 26. The \<^verbatim>\<open>try\<close> holds the call of
  \<^verbatim>\<open>encoding_for_model\<close> alone and its handler catches KeyError alone: any other exception
  of that call, and every exception of \<^verbatim>\<open>encoding.encode(text)\<close> on line 26, leaves the
  function.
\<close>

definition get_token_count :: "externals \<Rightarrow> string \<Rightarrow> string \<Rightarrow> exn + nat" where
  "get_token_count lib text model =
     (case (case encoding_for_model lib model of
              Inr enc \<Rightarrow> Inr enc
            | Inl e \<Rightarrow> if e = KeyError then Inr (get_encoding lib ''cl100k_base'') else Inl e) of
        Inl e \<Rightarrow> Inl e
      | Inr encoding \<Rightarrow>
          (case encoding text of
             Inl e \<Rightarrow> Inl e
           | Inr encoded \<Rightarrow> Inr (length encoded)))"

text \<open>
  \<^verbatim>\<open>scan_and_redact\<close>, lines 28 to 38; \<open>ENTITIES\<close> is the list of entity names that
  line 32 passes to the analyzer.
\<close>

definition ENTITIES :: "string list" where
  "ENTITIES = [''PHONE_NUMBER'', ''EMAIL_ADDRESS'', ''CREDIT_CARD'', ''US_SSN'']"

definition scan_and_redact :: "externals \<Rightarrow> string \<Rightarrow> string \<times> nat" where
  "scan_and_redact lib text =
     (let results = analyze lib text ENTITIES ''en'';
          anonymized_result = anonymize lib text results
      in (anonymized_result, length results))"


section \<open>The script\<close>

text \<open>
  The two options of the sidebar's radio button (line 51). The script compares the
  choice with the first and treats anything else as the second.
\<close>

definition STRICT :: string where
  "STRICT = ''Strict (Block & Redact)''"

definition AUDIT_ONLY :: string where
  "AUDIT_ONLY = ''Audit Only (Log It)''"

text \<open>Both cost lines (71 and 79) are \<^verbatim>\<open>(tokens / 1000) * PRICE\<close>.\<close>

definition est_cost :: "nat \<Rightarrow> pyfloat \<Rightarrow> pyfloat" where
  "est_cost tokens price = fmul (truediv tokens 1000) price"

text \<open>
  Routing, lines 77 to 84: the model, the cost of the model used and the reason shown.
\<close>

definition routing :: "config \<Rightarrow> nat \<Rightarrow> pyfloat \<Rightarrow> string \<times> pyfloat \<times> string" where
  "routing cfg tokens est_cost_high =
     (if tokens < TOKEN_THRESHOLD cfg
      then (''gpt-4o-mini'', est_cost tokens (PRICE_MINI cfg), ''Low complexity (Token count < 50)'')
      else (''gpt-4o'', est_cost_high, ''High complexity''))"

text \<open>
  What the status box shows (lines 90 to 108), one constructor for each message of the
  source, in the order of the calls.
\<close>

datatype status_message =
    Token_Audit nat
  | PII_Detected nat
  | PII_Redacted
  | Logging_Violation
  | No_PII_Detected
  | Routing_Decision string
  | Reason string

text \<open>The PII check, lines 94 to 104: the messages shown and the prompt that is sent.\<close>

definition pii_check :: "string \<Rightarrow> string \<Rightarrow> string \<Rightarrow> nat \<Rightarrow> status_message list \<times> string" where
  "pii_check compliance_mode prompt clean_prompt pii_count =
     (if 0 < pii_count
      then (if compliance_mode = ''Strict (Block & Redact)''
            then ([PII_Detected pii_count, PII_Redacted], clean_prompt)
            else ([PII_Detected pii_count, Logging_Violation], prompt))
      else ([No_PII_Detected], prompt))"

text \<open>
  The values the script binds for one prompt (lines 69 to 108), under the source's
  names; \<open>final_prompt\<close> with \<open>model_used\<close> is what the execution layer sends.
  \<open>process_prompt\<close> is the script from line 71 on, for the token count \<open>n\<close> that line 70
  has returned.
\<close>

record decision =
  tokens :: nat
  est_cost_high :: pyfloat
  clean_prompt :: string
  pii_count :: nat
  model_used :: string
  est_cost_actual :: pyfloat
  route_reason :: string
  savings :: pyfloat
  status :: "status_message list"
  final_prompt :: string

definition process_prompt ::
  "config \<Rightarrow> externals \<Rightarrow> string \<Rightarrow> string \<Rightarrow> nat \<Rightarrow> decision" where
  "process_prompt cfg lib compliance_mode prompt n =
     (let high = est_cost n (PRICE_GPT4 cfg);
          (clean, found) = scan_and_redact lib prompt;
          (model, actual, reason) = routing cfg n high;
          (messages, final) = pii_check compliance_mode prompt clean found
      in \<lparr>tokens = n,
          est_cost_high = high,
          clean_prompt = clean,
          pii_count = found,
          model_used = model,
          est_cost_actual = actual,
          route_reason = reason,
          savings = fsub high actual,
          status = [Token_Audit n] @ messages @ [Routing_Decision model, Reason reason],
          final_prompt = final\<rparr>)"

text \<open>
  The session state holds \<^verbatim>\<open>total_savings\<close>, absent (\<open>None\<close>) until the first run of
  the script sets it to 0.0 (lines 55 and 56). One run of the script: the chat input
  is \<open>None\<close> or a string, and \<^verbatim>\<open>if prompt:\<close> skips the empty string as well. Line 70
  counts the tokens; an exception there ends the run with nothing decided and the
  total as it was. Line 87 adds the savings of the prompt to the total.
\<close>

record session_state =
  total_savings :: "pyfloat option"

definition current_total :: "session_state \<Rightarrow> pyfloat" where
  "current_total st = (case total_savings st of None \<Rightarrow> 0 | Some v \<Rightarrow> v)"

definition script_run ::
  "config \<Rightarrow> externals \<Rightarrow> string \<Rightarrow> string option \<Rightarrow> session_state
    \<Rightarrow> (exn + decision) option \<times> session_state" where
  "script_run cfg lib compliance_mode chat_input st =
     (let total = current_total st in
      case chat_input of
        None \<Rightarrow> (None, \<lparr>total_savings = Some total\<rparr>)
      | Some prompt \<Rightarrow>
          if prompt = [] then (None, \<lparr>total_savings = Some total\<rparr>)
          else
            (case get_token_count lib prompt ''gpt-4o'' of
               Inl e \<Rightarrow> (Some (Inl e), \<lparr>total_savings = Some total\<rparr>)
             | Inr n \<Rightarrow>
                 (let d = process_prompt cfg lib compliance_mode prompt n
                  in (Some (Inr d), \<lparr>total_savings = Some (fadd total (savings d))\<rparr>))))"

text \<open>A session: the script runs once for each interaction, on the state the last run left.\<close>

primrec run_session ::
  "config \<Rightarrow> externals \<Rightarrow> (string \<times> string option) list \<Rightarrow> session_state \<Rightarrow> session_state" where
  "run_session cfg lib [] st = st"
| "run_session cfg lib (x # xs) st =
     run_session cfg lib xs (snd (script_run cfg lib (fst x) (snd x) st))"

definition new_session :: session_state where
  "new_session = \<lparr>total_savings = None\<rparr>"


section \<open>Stand-ins for the engines\<close>

text \<open>
  A small tokenizer and recognizer on which concrete runs can be computed: one token
  for each character, and ValueError on a text that contains the special token
  \<^verbatim>\<open><|endoftext|>\<close>, as tiktoken's \<^verbatim>\<open>encode\<close> raises it; an encoding registered for
  \<^verbatim>\<open>gpt-4o\<close> only; every digit reported as a one-character telephone finding, and every
  finding replaced by \<^verbatim>\<open>#\<close>.
\<close>

primrec has_special :: "string \<Rightarrow> bool" where
  "has_special [] = False"
| "has_special (c # cs) = (take 13 (c # cs) = ''<|endoftext|>'' \<or> has_special cs)"

definition char_tokens :: encoding where
  "char_tokens text = (if has_special text then Inl ValueError else Inr (map of_char text))"

primrec digit_findings :: "nat \<Rightarrow> string \<Rightarrow> recognizer_result list" where
  "digit_findings i [] = []"
| "digit_findings i (c # cs) =
     (if c \<in> set ''0123456789''
      then [\<lparr>entity_type = ''PHONE_NUMBER'', start = i, stop = Suc i, score = 1\<rparr>]
      else []) @ digit_findings (Suc i) cs"

definition mask_findings :: "string \<Rightarrow> recognizer_result list \<Rightarrow> string" where
  "mask_findings text results = fold (\<lambda>r t. t[start r := CHR ''#'']) results text"

definition stub_lib :: externals where
  "stub_lib =
     \<lparr>encoding_for_model = (\<lambda>model. if model = ''gpt-4o'' then Inr char_tokens else Inl KeyError),
      get_encoding = (\<lambda>name. char_tokens),
      analyze = (\<lambda>text entities language. digit_findings 0 text),
      anonymize = mask_findings\<rparr>"


section \<open>Rounding\<close>

text \<open>
  What the later sections need of \<open>fl\<close>: it is monotone, odd, leaves every binary64
  value as it is (so rounding twice is rounding once), and keeps apart two numbers
  that are a factor of four apart.
\<close>

lemma rhe_of_int: "round_half_even (of_int n) = n"
  by (simp add: round_half_even_def)

lemma rhe_bounds: "\<lfloor>x\<rfloor> \<le> round_half_even x" "round_half_even x \<le> \<lfloor>x\<rfloor> + 1"
  by (simp_all add: round_half_even_def Let_def)

lemma rhe_mono:
  assumes "x \<le> y"
  shows "round_half_even x \<le> round_half_even y"
proof (cases "\<lfloor>x\<rfloor> = \<lfloor>y\<rfloor>")
  case True
  with assms show ?thesis
    by (auto simp add: round_half_even_def Let_def)
next
  case False
  with assms have "\<lfloor>x\<rfloor> + 1 \<le> \<lfloor>y\<rfloor>"
    using floor_mono [of x y] by linarith
  with rhe_bounds [of x] rhe_bounds [of y] show ?thesis
    by linarith
qed

lemma rhe_minus: "round_half_even (- x) = - round_half_even x"
proof (cases "x \<in> \<int>")
  case True
  then obtain n where "x = of_int n" by (auto elim: Ints_cases)
  then show ?thesis
    using rhe_of_int [of "- n"] rhe_of_int [of n] by simp
next
  case False
  then have ne: "x \<noteq> of_int \<lfloor>x\<rfloor>"
    by (metis Ints_of_int)
  then have fl: "\<lfloor>- x\<rfloor> = - \<lfloor>x\<rfloor> - 1"
    by (simp add: floor_minus ceiling_altdef)
  show ?thesis
    unfolding round_half_even_def Let_def fl
    using ne by (auto simp add: algebra_simps)
qed

lemma rhe_le_int: "x \<le> of_int n \<Longrightarrow> round_half_even x \<le> n"
  using rhe_mono [of x "of_int n"] by (simp add: rhe_of_int)

lemma rhe_ge_int: "of_int n \<le> x \<Longrightarrow> n \<le> round_half_even x"
  using rhe_mono [of "of_int n" x] by (simp add: rhe_of_int)

lemma ulp_shift_minus: "ulp_shift (- x) = ulp_shift x"
  by (simp add: ulp_shift_def)

lemma fl_minus: "fl (- x) = - fl x"
  by (simp add: fl_def ulp_shift_minus rhe_minus)

lemma ulp_shift_mono:
  assumes "\<bar>x\<bar> \<le> \<bar>y\<bar>"
  shows "ulp_shift x \<le> ulp_shift y"
proof -
  have "\<lfloor>\<bar>x\<bar> * 2 ^ emin\<rfloor> \<le> \<lfloor>\<bar>y\<bar> * 2 ^ emin\<rfloor>"
    using assms by (intro floor_mono) simp
  then have "bitlen \<lfloor>\<bar>x\<bar> * 2 ^ emin\<rfloor> \<le> bitlen \<lfloor>\<bar>y\<bar> * 2 ^ emin\<rfloor>"
    unfolding bitlen_def by (intro zle_int [THEN iffD2] floorlog_mono nat_mono)
  then show ?thesis
    unfolding ulp_shift_def by linarith
qed

text \<open>The scaled magnitude has at most 53 bits above the shift, and exactly 53 when
  the shift is not zero.\<close>

lemma shift_upper: "\<bar>x\<bar> * 2 ^ emin < 2 ^ (ulp_shift x + Suc mant)"
proof -
  let ?n = "\<lfloor>\<bar>x\<bar> * 2 ^ emin\<rfloor>"
  have "bitlen ?n \<le> int (ulp_shift x + Suc mant)"
    unfolding ulp_shift_def by linarith
  then have "?n < 2 ^ (ulp_shift x + Suc mant)"
    unfolding bitlen_le_iff_power nat_int by blast
  then have "?n + 1 \<le> 2 ^ (ulp_shift x + Suc mant)"
    by linarith
  then have "(of_int (?n + 1) :: rat) \<le> of_int (2 ^ (ulp_shift x + Suc mant))"
    by (rule of_int_le_iff [THEN iffD2])
  moreover have "\<bar>x\<bar> * 2 ^ emin < of_int (?n + 1)"
    by linarith
  ultimately have "\<bar>x\<bar> * 2 ^ emin < (of_int (2 ^ (ulp_shift x + Suc mant)) :: rat)"
    by (rule less_le_trans [rotated])
  then show ?thesis
    by simp
qed

lemma shift_lower:
  assumes "0 < ulp_shift x"
  shows "2 ^ (ulp_shift x + mant) \<le> \<bar>x\<bar> * 2 ^ emin"
proof -
  let ?n = "\<lfloor>\<bar>x\<bar> * 2 ^ emin\<rfloor>"
  from assms have "int (ulp_shift x + Suc mant) \<le> bitlen ?n"
    unfolding ulp_shift_def by linarith
  then have "2 ^ (nat (int (ulp_shift x + Suc mant)) - 1) \<le> ?n"
    unfolding bitlen_ge_iff_power by linarith
  then have "2 ^ (ulp_shift x + mant) \<le> ?n"
    unfolding nat_int by simp
  then have "(of_int (2 ^ (ulp_shift x + mant)) :: rat) \<le> of_int ?n"
    by (rule of_int_le_iff [THEN iffD2])
  moreover have "of_int ?n \<le> \<bar>x\<bar> * 2 ^ emin"
    by linarith
  ultimately have "(of_int (2 ^ (ulp_shift x + mant)) :: rat) \<le> \<bar>x\<bar> * 2 ^ emin"
    by (rule order_trans)
  then show ?thesis
    by simp
qed

lemma fl_nonneg:
  assumes "0 \<le> x"
  shows "0 \<le> fl x"
proof -
  from assms have "(of_int 0 :: rat) \<le> x * 2 ^ emin / 2 ^ ulp_shift x"
    by simp
  then have "0 \<le> round_half_even (x * 2 ^ emin / 2 ^ ulp_shift x)"
    by (rule rhe_ge_int)
  then show ?thesis
    by (simp add: fl_def)
qed

lemma scaled_le:
  fixes m n :: int
  assumes "m \<le> n"
  shows "(of_int m :: rat) * 2 ^ k / 2 ^ emin \<le> of_int n * 2 ^ k / 2 ^ emin"
  using assms by (simp add: divide_right_mono mult_right_mono)

text \<open>Monotonicity: inside one binade by the rounding of the mantissa, across two
  binades through the power of two that starts the upper one.\<close>

lemma fl_mono_nonneg:
  assumes "0 \<le> x" "x \<le> y"
  shows "fl x \<le> fl y"
proof -
  let ?kx = "ulp_shift x" and ?ky = "ulp_shift y"
  from assms have k: "?kx \<le> ?ky"
    by (intro ulp_shift_mono) simp
  show ?thesis
  proof (cases "?kx = ?ky")
    case True
    from assms have "x * 2 ^ emin / 2 ^ ?ky \<le> y * 2 ^ emin / 2 ^ ?ky"
      by (simp add: divide_right_mono mult_right_mono)
    then have "round_half_even (x * 2 ^ emin / 2 ^ ?ky) \<le> round_half_even (y * 2 ^ emin / 2 ^ ?ky)"
      by (rule rhe_mono)
    then show ?thesis
      unfolding fl_def True by (rule scaled_le)
  next
    case False
    with k have lt: "?kx < ?ky" by simp
    define d where "d = ?ky + mant - ?kx"
    from lt have d: "?ky + mant = d + ?kx" "?kx + Suc mant \<le> ?ky + mant"
      by (simp_all add: d_def)
    have "x * 2 ^ emin < 2 ^ (?kx + Suc mant)"
      using shift_upper [of x] assms by simp
    also have "\<dots> \<le> (2::rat) ^ (?ky + mant)"
      using d(2) by (intro power_increasing) simp_all
    finally have "x * 2 ^ emin / 2 ^ ?kx \<le> of_int (2 ^ d)"
      by (simp add: d(1) power_add pos_divide_le_eq)
    then have "round_half_even (x * 2 ^ emin / 2 ^ ?kx) \<le> 2 ^ d"
      by (rule rhe_le_int)
    then have "fl x \<le> of_int (2 ^ d) * 2 ^ ?kx / 2 ^ emin"
      unfolding fl_def by (rule scaled_le)
    also have "\<dots> = of_int (2 ^ mant) * 2 ^ ?ky / 2 ^ emin"
    proof -
      have "(2::rat) ^ d * 2 ^ ?kx = 2 ^ mant * 2 ^ ?ky"
        by (simp only: power_add [symmetric] d(1) [symmetric] add.commute)
      then show ?thesis by simp
    qed
    also have "\<dots> \<le> fl y"
    proof -
      have "2 ^ (?ky + mant) \<le> y * 2 ^ emin"
        using shift_lower [of y] lt assms by simp
      then have "of_int (2 ^ mant) \<le> y * 2 ^ emin / 2 ^ ?ky"
        by (simp add: power_add pos_le_divide_eq mult.commute)
      then have "2 ^ mant \<le> round_half_even (y * 2 ^ emin / 2 ^ ?ky)"
        by (rule rhe_ge_int)
      then show ?thesis
        unfolding fl_def by (rule scaled_le)
    qed
    finally show ?thesis .
  qed
qed

lemma fl_mono:
  assumes "x \<le> y"
  shows "fl x \<le> fl y"
proof -
  consider "0 \<le> x" | "y \<le> 0" | "x \<le> 0" "0 \<le> y"
    by linarith
  then show ?thesis
  proof cases
    case 1
    from 1 assms show ?thesis by (rule fl_mono_nonneg)
  next
    case 2
    with assms have "fl (- y) \<le> fl (- x)"
      by (intro fl_mono_nonneg) simp_all
    then show ?thesis by (simp add: fl_minus)
  next
    case 3
    then have "0 \<le> fl (- x)" "0 \<le> fl y"
      by (simp_all add: fl_nonneg)
    then show ?thesis by (simp add: fl_minus)
  qed
qed

text \<open>Exactness: a number whose scaled mantissa is already an integer is not moved.\<close>

lemma fl_exact:
  assumes "x * 2 ^ emin / 2 ^ ulp_shift x = of_int n"
  shows "fl x = x"
  unfolding fl_def assms rhe_of_int
  unfolding assms [symmetric] by simp

lemma ulp_shift_repr:
  assumes "0 < m"
  shows "ulp_shift (of_int m * 2 ^ j / 2 ^ emin) = nat (bitlen m + int j - int (Suc mant))"
proof -
  from assms have "\<bar>of_int m * 2 ^ j / 2 ^ emin :: rat\<bar> * 2 ^ emin = of_int (m * 2 ^ j)"
    by simp
  then have "\<lfloor>\<bar>of_int m * 2 ^ j / 2 ^ emin :: rat\<bar> * 2 ^ emin\<rfloor> = m * 2 ^ j"
    by (simp only: floor_of_int)
  then show ?thesis
    unfolding ulp_shift_def using assms by (simp only: bitlen_pow2)
qed

lemma fl_repr_pos:
  assumes "0 < m" "m \<le> 2 ^ Suc mant"
  shows "fl (of_int m * 2 ^ j / 2 ^ emin) = of_int m * 2 ^ j / 2 ^ emin"
proof (cases "m = 2 ^ Suc mant")
  case True
  have "bitlen m = int mant + 2"
    unfolding True using bitlen_twopow_add_eq [of 0 "Suc mant"] by simp
  then have k: "ulp_shift (of_int m * 2 ^ j / 2 ^ emin) = Suc j"
    using ulp_shift_repr [OF assms(1), of j] by simp
  have "(of_int m * 2 ^ j / 2 ^ emin :: rat) * 2 ^ emin / 2 ^ Suc j = of_int (2 ^ mant)"
    unfolding True by simp
  then show ?thesis
    unfolding k [symmetric] by (rule fl_exact)
next
  case False
  with assms have "m < 2 ^ Suc mant" by simp
  then have "bitlen m \<le> int (Suc mant)"
    unfolding bitlen_le_iff_power nat_int by simp
  then have "ulp_shift (of_int m * 2 ^ j / 2 ^ emin) \<le> j"
    using ulp_shift_repr [OF assms(1), of j] by simp
  then obtain d where d: "j = ulp_shift (of_int m * 2 ^ j / 2 ^ emin) + d"
    using le_Suc_ex by blast
  have "(of_int m * 2 ^ j / 2 ^ emin :: rat) * 2 ^ emin / 2 ^ ulp_shift (of_int m * 2 ^ j / 2 ^ emin)
      = of_int m * (2 ^ j / 2 ^ ulp_shift (of_int m * 2 ^ j / 2 ^ emin))"
    by simp
  also have "2 ^ j / 2 ^ ulp_shift (of_int m * 2 ^ j / 2 ^ emin) = (2::rat) ^ d"
    by (subst (1) d) (simp add: power_add)
  finally have "(of_int m * 2 ^ j / 2 ^ emin :: rat) * 2 ^ emin / 2 ^ ulp_shift (of_int m * 2 ^ j / 2 ^ emin)
      = of_int (m * 2 ^ d)"
    by simp
  then show ?thesis
    by (rule fl_exact)
qed

lemma fl_zero: "fl 0 = 0"
  by (simp add: fl_def rhe_of_int [of 0, simplified])

lemma fl_repr:
  assumes "\<bar>m\<bar> \<le> 2 ^ Suc mant"
  shows "fl (of_int m * 2 ^ j / 2 ^ emin) = of_int m * 2 ^ j / 2 ^ emin"
proof -
  consider "m = 0" | "0 < m" | "m < 0" by linarith
  then show ?thesis
  proof cases
    case 1
    then show ?thesis by (simp add: fl_zero)
  next
    case 2
    with assms show ?thesis by (intro fl_repr_pos) simp_all
  next
    case 3
    with assms have "fl (of_int (- m) * 2 ^ j / 2 ^ emin) = of_int (- m) * 2 ^ j / 2 ^ emin"
      by (intro fl_repr_pos) simp_all
    then show ?thesis
      using fl_minus [of "of_int m * 2 ^ j / 2 ^ emin"] by simp
  qed
qed

lemma fl_idem: "fl (fl x) = fl x"
proof -
  let ?k = "ulp_shift x"
  let ?m = "round_half_even (x * 2 ^ emin / 2 ^ ?k)"
  have "\<bar>x * 2 ^ emin / 2 ^ ?k\<bar> = \<bar>x\<bar> * 2 ^ emin / 2 ^ ?k"
    by (simp add: abs_mult)
  also have "\<dots> \<le> 2 ^ (?k + Suc mant) / 2 ^ ?k"
    using shift_upper [of x] by (intro divide_right_mono less_imp_le) simp_all
  also have "\<dots> = of_int (2 ^ Suc mant)"
    by (simp add: power_add)
  finally have "\<bar>x * 2 ^ emin / 2 ^ ?k\<bar> \<le> of_int (2 ^ Suc mant)" .
  then have up: "x * 2 ^ emin / 2 ^ ?k \<le> of_int (2 ^ Suc mant)"
    and "- (x * 2 ^ emin / 2 ^ ?k) \<le> of_int (2 ^ Suc mant)"
    unfolding abs_le_iff by blast+
  then have lo: "of_int (- (2 ^ Suc mant)) \<le> x * 2 ^ emin / 2 ^ ?k"
    unfolding of_int_minus by linarith
  have "?m \<le> 2 ^ Suc mant" "- (2 ^ Suc mant) \<le> ?m"
    using up lo by (simp_all only: rhe_le_int rhe_ge_int)
  then have "\<bar>?m\<bar> \<le> 2 ^ Suc mant"
    by linarith
  then show ?thesis
    unfolding fl_def [of x] by (rule fl_repr)
qed

lemma fl_pow2: "fl (2 ^ j / 2 ^ emin) = 2 ^ j / 2 ^ emin"
proof -
  have "(1::int) \<le> 2 ^ Suc mant"
    by (rule one_le_power) simp
  then have "\<bar>1::int\<bar> \<le> 2 ^ Suc mant"
    by simp
  then have "fl (of_int 1 * 2 ^ j / 2 ^ emin) = of_int 1 * 2 ^ j / 2 ^ emin"
    by (rule fl_repr)
  then show ?thesis by simp
qed

lemma fl_pow2_inv:
  assumes "j \<le> emin"
  shows "fl (1 / 2 ^ j) = 1 / 2 ^ j"
proof -
  have "(1::rat) / 2 ^ j = 2 ^ (emin - j) / 2 ^ emin"
    using assms by (simp add: power_diff)
  then show ?thesis
    using fl_pow2 [of "emin - j"] by simp
qed

lemma fl_separated:
  assumes "1 \<le> u * 2 ^ emin" "4 * u \<le> v"
  shows "fl u < fl v"
proof -
  let ?n = "\<lfloor>u * 2 ^ emin\<rfloor>"
  define b where "b = nat (bitlen ?n - 1)"
  from assms(1) have n: "1 \<le> ?n" by simp
  then have "2 ^ b \<le> ?n" "?n < 2 ^ nat (bitlen ?n)"
    unfolding b_def using bitlen_bounds [of ?n] by simp_all
  moreover from n have "1 \<le> bitlen ?n"
    by (simp add: bitlen_ge_iff_power)
  then have "nat (bitlen ?n) = Suc b"
    unfolding b_def by linarith
  ultimately have lo: "2 ^ b \<le> ?n" and hi: "?n + 1 \<le> 2 ^ Suc b"
    by simp_all
  let ?z = "2 ^ Suc b / 2 ^ emin :: rat"
  let ?z' = "2 ^ Suc (Suc b) / 2 ^ emin :: rat"
  have z: "fl ?z = ?z" and z': "fl ?z' = ?z'"
    by (rule fl_pow2)+
  have "u * 2 ^ emin \<le> of_int (?n + 1)"
    by linarith
  also have "\<dots> \<le> of_int (2 ^ Suc b)"
    using hi by (rule of_int_le_iff [THEN iffD2])
  finally have "u \<le> ?z"
    by (simp add: pos_le_divide_eq)
  then have 1: "fl u \<le> ?z"
    using fl_mono [of u ?z] z by simp
  have "(of_int (2 ^ b) :: rat) \<le> of_int ?n"
    using lo by (rule of_int_le_iff [THEN iffD2])
  also have "\<dots> \<le> u * 2 ^ emin"
    by linarith
  finally have "2 ^ Suc (Suc b) \<le> 4 * u * 2 ^ emin"
    by simp
  also have "\<dots> \<le> v * 2 ^ emin"
    using assms(2) by (intro mult_right_mono) simp_all
  finally have "?z' \<le> v"
    by (simp add: pos_divide_le_eq)
  then have 2: "?z' \<le> fl v"
    using fl_mono [of ?z' v] z' by simp
  have "?z < ?z'"
    by (simp add: divide_strict_right_mono)
  with 1 2 show ?thesis by linarith
qed


text \<open>
  Evaluation: when \<open>j\<close> is the exponent that brings \<open>\<bar>x\<bar>\<close> into the range of a 53-bit
  mantissa, \<open>fl x\<close> is the mantissa rounded, over \<open>2 ^ j\<close>. This computes \<open>fl\<close> on the
  concrete values below.
\<close>

lemma ulp_shift_eq:
  assumes "2 ^ (k + mant) \<le> \<bar>x\<bar> * 2 ^ emin" "\<bar>x\<bar> * 2 ^ emin < 2 ^ (k + Suc mant)"
  shows "ulp_shift x = k"
proof -
  let ?n = "\<lfloor>\<bar>x\<bar> * 2 ^ emin\<rfloor>"
  have "(of_int (2 ^ (k + mant)) :: rat) \<le> \<bar>x\<bar> * 2 ^ emin"
    using assms(1) by simp
  then have lo: "2 ^ (k + mant) \<le> ?n"
    by (simp only: le_floor_iff)
  have "\<bar>x\<bar> * 2 ^ emin < (of_int (2 ^ (k + Suc mant)) :: rat)"
    using assms(2) by simp
  then have hi: "?n < 2 ^ (k + Suc mant)"
    by (simp only: floor_less_iff)
  from hi have "bitlen ?n \<le> int (k + Suc mant)"
    unfolding bitlen_le_iff_power nat_int by simp
  moreover from lo have "int (k + Suc mant) \<le> bitlen ?n"
    unfolding bitlen_ge_iff_power nat_int by simp
  ultimately have "bitlen ?n = int (k + Suc mant)"
    by (rule antisym)
  then show ?thesis
    unfolding ulp_shift_def by simp
qed

lemma fl_eval:
  assumes "j \<le> emin" "2 ^ mant \<le> \<bar>x\<bar> * 2 ^ j" "\<bar>x\<bar> * 2 ^ j < 2 ^ Suc mant"
  shows "fl x = of_int (round_half_even (x * 2 ^ j)) / 2 ^ j"
proof -
  define k where "k = emin - j"
  with assms(1) have e: "(2::rat) ^ emin = 2 ^ j * 2 ^ k"
    by (simp add: power_add [symmetric])
  have "2 ^ (k + mant) = 2 ^ mant * (2::rat) ^ k"
    by (simp add: power_add)
  also have "\<dots> \<le> (\<bar>x\<bar> * 2 ^ j) * 2 ^ k"
    using assms(2) by (intro mult_right_mono) simp_all
  finally have lo: "2 ^ (k + mant) \<le> \<bar>x\<bar> * 2 ^ emin"
    by (simp add: e mult.assoc)
  have "(\<bar>x\<bar> * 2 ^ j) * 2 ^ k < 2 ^ Suc mant * (2::rat) ^ k"
    using assms(3) by (intro mult_strict_right_mono) simp_all
  also have "\<dots> = 2 ^ (k + Suc mant)"
    by (simp add: power_add)
  finally have hi: "\<bar>x\<bar> * 2 ^ emin < 2 ^ (k + Suc mant)"
    by (simp add: e mult.assoc)
  from lo hi have "ulp_shift x = k"
    by (rule ulp_shift_eq)
  then show ?thesis
    unfolding fl_def by (simp add: e)
qed

lemma floor_rat_numeral: "\<lfloor>numeral a / numeral b :: rat\<rfloor> = numeral a div numeral b"
  using floor_divide_of_int_eq [of "numeral a" "numeral b", where ?'a = rat] by simp

lemmas fl_eval_simps = emin_def mant_def round_half_even_def Let_def floor_rat_numeral


section \<open>The fields of a decision\<close>

text \<open>
  Each field of the decision, read off the script.
\<close>

lemma process_prompt_fields:
  "tokens (process_prompt cfg lib m p n) = n"
  "est_cost_high (process_prompt cfg lib m p n) =
     est_cost (n) (PRICE_GPT4 cfg)"
  "clean_prompt (process_prompt cfg lib m p n) = fst (scan_and_redact lib p)"
  "pii_count (process_prompt cfg lib m p n) = snd (scan_and_redact lib p)"
  "model_used (process_prompt cfg lib m p n) =
     fst (routing cfg (n)
       (est_cost (n) (PRICE_GPT4 cfg)))"
  "est_cost_actual (process_prompt cfg lib m p n) =
     fst (snd (routing cfg (n)
       (est_cost (n) (PRICE_GPT4 cfg))))"
  "route_reason (process_prompt cfg lib m p n) =
     snd (snd (routing cfg (n)
       (est_cost (n) (PRICE_GPT4 cfg))))"
  "savings (process_prompt cfg lib m p n) =
     fsub (est_cost_high (process_prompt cfg lib m p n)) (est_cost_actual (process_prompt cfg lib m p n))"
  "final_prompt (process_prompt cfg lib m p n) =
     snd (pii_check m p (fst (scan_and_redact lib p)) (snd (scan_and_redact lib p)))"
  "status (process_prompt cfg lib m p n) =
     Token_Audit (tokens (process_prompt cfg lib m p n))
       # fst (pii_check m p (fst (scan_and_redact lib p)) (snd (scan_and_redact lib p)))
       @ [Routing_Decision (model_used (process_prompt cfg lib m p n)),
          Reason (route_reason (process_prompt cfg lib m p n))]"
  by (simp_all add: process_prompt_def Let_def split_def)

text \<open>
  A run of the script on a prompt: when line 70 returns the token count \<open>n\<close>, the run
  decides \<open>process_prompt cfg lib m p n\<close> and adds its savings to the total; when
  line 70 raises, the run ends with that exception and the total unchanged.
\<close>

lemma script_run_prompt:
  assumes "p \<noteq> []" "get_token_count lib p ''gpt-4o'' = Inr n"
  shows "script_run cfg lib m (Some p) st =
    (Some (Inr (process_prompt cfg lib m p n)),
     \<lparr>total_savings = Some (fadd (current_total st) (savings (process_prompt cfg lib m p n)))\<rparr>)"
  using assms by (simp add: script_run_def Let_def)

lemma script_run_raises:
  assumes "p \<noteq> []" "get_token_count lib p ''gpt-4o'' = Inl e"
  shows "script_run cfg lib m (Some p) st =
    (Some (Inl e), \<lparr>total_savings = Some (current_total st)\<rparr>)"
  using assms by (simp add: script_run_def Let_def)

text \<open>The stand-in tokenizer: what it counts, and the texts used below.\<close>

lemma stub_token_count:
  "get_token_count stub_lib p ''gpt-4o'' = (if has_special p then Inl ValueError else Inr (length p))"
  by (simp add: get_token_count_def stub_lib_def char_tokens_def)

lemma no_special_replicate: "\<not> has_special (replicate k CHR ''a'')"
  by (induction k) simp_all

lemma stub_count_replicate: "get_token_count stub_lib (replicate k CHR ''a'') ''gpt-4o'' = Inr k"
  by (simp add: stub_token_count no_special_replicate)

lemma stub_count_hello: "get_token_count stub_lib ''hello'' ''gpt-4o'' = Inr 5"
  by (simp add: stub_token_count)

lemma stub_count_call: "get_token_count stub_lib ''Call me at 555-0199'' ''gpt-4o'' = Inr 19"
  by (simp add: stub_token_count)


section \<open>Cost estimates\<close>

text \<open>
  Bounds on the quotient \<^verbatim>\<open>tokens / 1000\<close> and on the two prices, by powers of two, which
  the rounding leaves in place.
\<close>

lemma truediv_nonneg: "0 \<le> truediv t 1000"
  unfolding truediv_def by (rule fl_nonneg) simp

lemma truediv_lower:
  assumes "0 < t"
  shows "1 / 2 ^ 10 \<le> truediv t 1000"
proof -
  from assms have "1 \<le> (of_nat t :: rat)"
    by simp
  then have "(1::rat) / 2 ^ 10 \<le> of_nat t / of_nat 1000"
    by simp
  then have "fl (1 / 2 ^ 10) \<le> truediv t 1000"
    unfolding truediv_def by (rule fl_mono)
  moreover have "fl (1 / 2 ^ 10) = 1 / 2 ^ 10"
    by (rule fl_pow2_inv) (simp add: emin_def)
  ultimately show ?thesis
    by (simp only:)
qed

lemma price_bounds:
  "1 / 2 ^ 6 \<le> PRICE_GPT4 app_config"
  "1 / 2 ^ 13 \<le> PRICE_MINI app_config"
  "PRICE_MINI app_config \<le> 1 / 2 ^ 12"
proof -
  have 6: "fl (1 / 2 ^ 6) = 1 / 2 ^ 6" and 13: "fl (1 / 2 ^ 13) = 1 / 2 ^ 13"
    and 12: "fl (1 / 2 ^ 12) = 1 / 2 ^ 12"
    by (rule fl_pow2_inv, simp add: emin_def)+
  have "fl (1 / 2 ^ 6) \<le> fl (3 / 100)"
    by (rule fl_mono) simp
  then show "1 / 2 ^ 6 \<le> PRICE_GPT4 app_config"
    by (simp only: 6 app_config_def config.simps)
  have "fl (1 / 2 ^ 13) \<le> fl (15 / 100000)"
    by (rule fl_mono) simp
  then show "1 / 2 ^ 13 \<le> PRICE_MINI app_config"
    by (simp only: 13 app_config_def config.simps)
  have "fl (15 / 100000) \<le> fl (1 / 2 ^ 12)"
    by (rule fl_mono) simp
  then show "PRICE_MINI app_config \<le> 1 / 2 ^ 12"
    by (simp only: 12 app_config_def config.simps)
qed

lemma prices_ordered: "PRICE_MINI app_config < PRICE_GPT4 app_config"
  using price_bounds(1,3) by simp

lemma est_cost_mono:
  assumes "rl \<le> rh"
  shows "est_cost t rl \<le> est_cost t rh"
  unfolding est_cost_def fmul_def
  using assms truediv_nonneg [of t] by (intro fl_mono mult_left_mono)

lemma est_cost_strict:
  assumes "0 < t"
  shows "est_cost t (PRICE_MINI app_config) < est_cost t (PRICE_GPT4 app_config)"
proof -
  let ?a = "truediv t 1000"
  let ?lo = "PRICE_MINI app_config" and ?hi = "PRICE_GPT4 app_config"
  from assms have a: "1 / 2 ^ 10 \<le> ?a"
    by (rule truediv_lower)
  have "(1::rat) / 2 ^ 23 = (1 / 2 ^ 10) * (1 / 2 ^ 13)"
    by simp
  also have "\<dots> \<le> ?a * ?lo"
    using a price_bounds(2) by (intro mult_mono) simp_all
  finally have lower: "1 / 2 ^ 23 \<le> ?a * ?lo" .
  have split: "(2::rat) ^ emin = 2 ^ (emin - 23) * 2 ^ 23"
    unfolding power_add [symmetric] by (simp add: emin_def)
  have "(1::rat) \<le> 2 ^ (emin - 23)"
    by (rule one_le_power) simp
  also have "\<dots> = (1 / 2 ^ 23) * 2 ^ emin"
    unfolding split by simp
  also have "\<dots> \<le> (?a * ?lo) * 2 ^ emin"
    using lower by (intro mult_right_mono) simp_all
  finally have big: "1 \<le> ?a * ?lo * 2 ^ emin" .
  have "4 * (?a * ?lo) \<le> 4 * (?a * (1 / 2 ^ 12))"
    using a price_bounds(3) by (intro mult_left_mono) simp_all
  also have "\<dots> \<le> ?a * (1 / 2 ^ 6)"
    using a by simp
  also have "\<dots> \<le> ?a * ?hi"
    using a price_bounds(1) by (intro mult_left_mono) simp_all
  finally have "4 * (?a * ?lo) \<le> ?a * ?hi" .
  with big show ?thesis
    unfolding est_cost_def fmul_def by (rule fl_separated)
qed

lemma est_cost_zero: "est_cost 0 r = 0"
  by (simp add: est_cost_def fmul_def truediv_def fl_zero)

text \<open>
  The values of the two prices, and the costs and savings of a prompt of 5 and of one
  of 19 tokens, as Python computes them: 0.03, 0.00015, 0.005, 0.019, and so on.
\<close>

lemma truediv_5: "truediv 5 1000 = 5764607523034235 / 2 ^ 60"
  unfolding truediv_def
  by (subst fl_eval [where j = 60]) (simp_all add: fl_eval_simps)

lemma price_gpt4_value: "PRICE_GPT4 app_config = 8646911284551352 / 2 ^ 58"
  unfolding app_config_def config.simps
  by (subst fl_eval [where j = 58]) (simp_all add: fl_eval_simps)

lemma price_mini_value: "PRICE_MINI app_config = 5534023222112865 / 2 ^ 65"
  unfolding app_config_def config.simps
  by (subst fl_eval [where j = 65]) (simp_all add: fl_eval_simps)

lemma truediv_19: "truediv 19 1000 = 5476377146882523 / 2 ^ 58"
  unfolding truediv_def
  by (subst fl_eval [where j = 58]) (simp_all add: fl_eval_simps)

lemma high_5: "est_cost 5 (PRICE_GPT4 app_config) = 5534023222112865 / 2 ^ 65"
  unfolding est_cost_def fmul_def truediv_5 price_gpt4_value
  by (subst fl_eval [where j = 65]) (simp_all add: fl_eval_simps)

lemma low_5: "est_cost 5 (PRICE_MINI app_config) = 7083549724304467 / 2 ^ 73"
  unfolding est_cost_def fmul_def truediv_5 price_mini_value
  by (subst fl_eval [where j = 73]) (simp_all add: fl_eval_simps)

lemma high_19: "est_cost 19 (PRICE_GPT4 app_config) = 5257322061007222 / 2 ^ 63"
  unfolding est_cost_def fmul_def truediv_19 price_gpt4_value
  by (subst fl_eval [where j = 63]) (simp_all add: fl_eval_simps)

lemma low_19: "est_cost 19 (PRICE_MINI app_config) = 6729372238089244 / 2 ^ 71"
  unfolding est_cost_def fmul_def truediv_19 price_mini_value
  by (subst fl_eval [where j = 71]) (simp_all add: fl_eval_simps)

lemma savings_5: "fsub (5534023222112865 / 2 ^ 65) (7083549724304467 / 2 ^ 73) = 5506353106002301 / 2 ^ 65"
  unfolding fsub_def
  by (subst fl_eval [where j = 65]) (simp_all add: fl_eval_simps)

lemma savings_19: "fsub (5257322061007222 / 2 ^ 63) (6729372238089244 / 2 ^ 71) = 5231035450702186 / 2 ^ 63"
  unfolding fsub_def
  by (subst fl_eval [where j = 63]) (simp_all add: fl_eval_simps)

lemma total_5_19: "fadd (5506353106002301 / 2 ^ 65) (5231035450702186 / 2 ^ 63) = 6607623727202761 / 2 ^ 63"
  unfolding fadd_def
  by (subst fl_eval [where j = 63]) (simp_all add: fl_eval_simps)

lemma savings_hello:
  "savings (process_prompt app_config stub_lib m ''hello'' 5) = 5506353106002301 / 2 ^ 65"
proof -
  have t: "TOKEN_THRESHOLD app_config = 50"
    by (simp add: app_config_def)
  have h: "est_cost_high (process_prompt app_config stub_lib m ''hello'' 5) = est_cost 5 (PRICE_GPT4 app_config)"
    by (simp only: process_prompt_fields)
  have a: "est_cost_actual (process_prompt app_config stub_lib m ''hello'' 5) = est_cost 5 (PRICE_MINI app_config)"
    unfolding process_prompt_fields routing_def t by simp
  show ?thesis
    unfolding process_prompt_fields(8) h a high_5 low_5 by (rule savings_5)
qed

lemma savings_call:
  "savings (process_prompt app_config stub_lib m ''Call me at 555-0199'' 19) = 5231035450702186 / 2 ^ 63"
proof -
  have t: "TOKEN_THRESHOLD app_config = 50"
    by (simp add: app_config_def)
  have h: "est_cost_high (process_prompt app_config stub_lib m ''Call me at 555-0199'' 19) = est_cost 19 (PRICE_GPT4 app_config)"
    by (simp only: process_prompt_fields)
  have a: "est_cost_actual (process_prompt app_config stub_lib m ''Call me at 555-0199'' 19) = est_cost 19 (PRICE_MINI app_config)"
    unfolding process_prompt_fields routing_def t by simp
  show ?thesis
    unfolding process_prompt_fields(8) h a high_19 low_19 by (rule savings_19)
qed

text \<open>
  C1, as the specification states it, fails: on a prompt of 50 tokens the script
  routes to \<^verbatim>\<open>gpt-4o\<close>, and neither of its two cost variables holds the low-tier cost
  \<^verbatim>\<open>(50 / 1000) * PRICE_MINI\<close>; line 83 copies the high-tier cost instead.
\<close>

theorem cost_of_every_tier_counterexample:
  "get_token_count stub_lib (replicate 50 CHR ''a'') ''gpt-4o'' = Inr 50
   \<and> model_used (process_prompt app_config stub_lib STRICT (replicate 50 CHR ''a'') 50) = ''gpt-4o''
   \<and> est_cost_high (process_prompt app_config stub_lib STRICT (replicate 50 CHR ''a'') 50)
        \<noteq> est_cost 50 (PRICE_MINI app_config)
   \<and> est_cost_actual (process_prompt app_config stub_lib STRICT (replicate 50 CHR ''a'') 50)
        \<noteq> est_cost 50 (PRICE_MINI app_config)"
proof -
  have "est_cost 50 (PRICE_MINI app_config) < est_cost 50 (PRICE_GPT4 app_config)"
    by (rule est_cost_strict) simp
  then show ?thesis
    by (simp add: process_prompt_fields stub_count_replicate routing_def app_config_def)
qed

text \<open>
  C1, amended. The high-tier cost \<^verbatim>\<open>(tokens / 1000) * PRICE_GPT4\<close> is computed on every
  prompt. The low-tier cost \<^verbatim>\<open>(tokens / 1000) * PRICE_MINI\<close> is computed when routing
  chooses the low tier (fewer tokens than the threshold), as the cost of the model
  used; when routing chooses the high tier, the cost of the model used is the
  high-tier cost.
\<close>

theorem costs_computed:
  "est_cost_high (process_prompt cfg lib compliance_mode prompt n)
     = est_cost (tokens (process_prompt cfg lib compliance_mode prompt n)) (PRICE_GPT4 cfg)
   \<and> est_cost_actual (process_prompt cfg lib compliance_mode prompt n)
     = (if tokens (process_prompt cfg lib compliance_mode prompt n) < TOKEN_THRESHOLD cfg
        then est_cost (tokens (process_prompt cfg lib compliance_mode prompt n)) (PRICE_MINI cfg)
        else est_cost_high (process_prompt cfg lib compliance_mode prompt n))"
  by (simp add: process_prompt_fields routing_def)

text \<open>
  Two rates next to each other among the floats, 1.75 and 1.7500000000000002, and a
  prompt of 5 tokens: \<^verbatim>\<open>(5 / 1000) * 1.75\<close> and \<^verbatim>\<open>(5 / 1000) * 1.7500000000000002\<close>
  are both 0.00875.
\<close>

lemma cost_5_at_175: "est_cost 5 (7 / 4) = 10088063165309912 / 2 ^ 60"
  unfolding est_cost_def fmul_def truediv_5
  by (subst fl_eval [where j = 59]) (simp_all add: fl_eval_simps)

lemma cost_5_next_to_175: "est_cost 5 (7 / 4 + 1 / 2 ^ 52) = 10088063165309912 / 2 ^ 60"
  unfolding est_cost_def fmul_def truediv_5
  by (subst fl_eval [where j = 59]) (simp_all add: fl_eval_simps)

lemma fl_7_4: "fl (7 / 4) = 7 / 4"
  by (subst fl_eval [where j = 52]) (simp_all add: fl_eval_simps)

lemma fl_7_4_next: "fl (7 / 4 + 1 / 2 ^ 52) = 7 / 4 + 1 / 2 ^ 52"
  by (subst fl_eval [where j = 52]) (simp_all add: fl_eval_simps)

text \<open>
  C7, as the specification states it, fails in its strict part: with the low rate
  1.75 and the high rate 1.7500000000000002, both floats, and a prompt of 5 tokens,
  the high rate is greater and the two costs of the script are equal.
\<close>

theorem cost_strict_counterexample:
  "fl (7 / 4) = 7 / 4 \<and> fl (7 / 4 + 1 / 2 ^ 52) = 7 / 4 + 1 / 2 ^ 52
   \<and> (7 / 4 :: rat) < 7 / 4 + 1 / 2 ^ 52
   \<and> get_token_count stub_lib ''hello'' ''gpt-4o'' = Inr 5
   \<and> est_cost_actual (process_prompt
        (app_config\<lparr>PRICE_GPT4 := 7 / 4 + 1 / 2 ^ 52, PRICE_MINI := 7 / 4\<rparr>)
        stub_lib STRICT ''hello'' 5) = est_cost 5 (7 / 4)
   \<and> est_cost_high (process_prompt
        (app_config\<lparr>PRICE_GPT4 := 7 / 4 + 1 / 2 ^ 52, PRICE_MINI := 7 / 4\<rparr>)
        stub_lib STRICT ''hello'' 5) = est_cost 5 (7 / 4 + 1 / 2 ^ 52)
   \<and> est_cost 5 (7 / 4 + 1 / 2 ^ 52) = est_cost 5 (7 / 4)"
proof -
  let ?cfg = "app_config\<lparr>PRICE_GPT4 := 7 / 4 + 1 / 2 ^ 52, PRICE_MINI := 7 / 4\<rparr>"
  have "est_cost_actual (process_prompt ?cfg stub_lib STRICT ''hello'' 5) = est_cost 5 (7 / 4)"
    unfolding process_prompt_fields by (simp add: routing_def app_config_def)
  moreover have "est_cost_high (process_prompt ?cfg stub_lib STRICT ''hello'' 5)
      = est_cost 5 (7 / 4 + 1 / 2 ^ 52)"
    unfolding process_prompt_fields by simp
  moreover have "est_cost 5 (7 / 4 + 1 / 2 ^ 52) = est_cost 5 (7 / 4)"
    by (simp only: cost_5_at_175 cost_5_next_to_175)
  moreover have "(7 / 4 :: rat) < 7 / 4 + 1 / 2 ^ 52"
    by simp
  ultimately show ?thesis
    using fl_7_4 fl_7_4_next stub_count_hello by (intro conjI)
qed

text \<open>
  C7, amended. For every token count and every two rates, the cost at the higher rate
  is at least the cost at the lower rate. With the two prices of the program, 0.00015
  and 0.03, the high-tier cost is greater than the low-tier cost whenever the token
  count is positive.
\<close>

theorem cost_monotonicity:
  "(rl \<le> rh \<longrightarrow> est_cost t rl \<le> est_cost t rh)
   \<and> PRICE_MINI app_config < PRICE_GPT4 app_config
   \<and> (0 < t \<longrightarrow> est_cost t (PRICE_MINI app_config) < est_cost t (PRICE_GPT4 app_config))"
  using est_cost_mono [of rl rh t] est_cost_strict [of t] prices_ordered by simp

theorem cost_monotonicity_witness:
  "((7 / 4 :: rat) \<le> 7 / 4 + 1 / 2 ^ 52 \<and> est_cost 5 (7 / 4) \<le> est_cost 5 (7 / 4 + 1 / 2 ^ 52))
   \<and> PRICE_MINI app_config < PRICE_GPT4 app_config
   \<and> (0 < (5::nat) \<and> est_cost 5 (PRICE_MINI app_config) < est_cost 5 (PRICE_GPT4 app_config))"
  using cost_monotonicity [of "7 / 4" "7 / 4 + 1 / 2 ^ 52" 5] by simp


section \<open>Token counting\<close>





section \<open>Routing\<close>

text \<open>
  C2, as the specification states it, fails in the reason: on a prompt of 49 tokens the
  script routes to the low tier, and the reason it gives is not the text
  \<^verbatim>\<open>below complexity threshold\<close>.
\<close>

theorem routing_reason_counterexample:
  "get_token_count stub_lib (replicate 49 CHR ''a'') ''gpt-4o'' = Inr 49
   \<and> model_used (process_prompt app_config stub_lib STRICT (replicate 49 CHR ''a'') 49) = ''gpt-4o-mini''
   \<and> route_reason (process_prompt app_config stub_lib STRICT (replicate 49 CHR ''a'') 49)
        \<noteq> ''below complexity threshold''"
  by (simp add: process_prompt_fields stub_count_replicate routing_def app_config_def)

text \<open>
  C2, amended. With the threshold 50 of the program, a prompt of fewer than 50 tokens
  is routed to the low tier \<^verbatim>\<open>gpt-4o-mini\<close> with the reason
  \<^verbatim>\<open>Low complexity (Token count < 50)\<close>, and a prompt of 50 tokens or more to the high
  tier \<^verbatim>\<open>gpt-4o\<close> with the reason \<^verbatim>\<open>High complexity\<close>; 49 tokens go to the low tier
  and 50 to the high tier.
\<close>

theorem routing_threshold:
  "model_used (process_prompt app_config lib compliance_mode prompt n)
     = (if tokens (process_prompt app_config lib compliance_mode prompt n) < 50
        then ''gpt-4o-mini'' else ''gpt-4o'')
   \<and> route_reason (process_prompt app_config lib compliance_mode prompt n)
     = (if tokens (process_prompt app_config lib compliance_mode prompt n) < 50
        then ''Low complexity (Token count < 50)'' else ''High complexity'')
   \<and> routing app_config t high
     = (if t < 50
        then (''gpt-4o-mini'', est_cost t (PRICE_MINI app_config), ''Low complexity (Token count < 50)'')
        else (''gpt-4o'', high, ''High complexity''))
   \<and> fst (routing app_config 49 high) = ''gpt-4o-mini''
   \<and> fst (routing app_config 50 high) = ''gpt-4o''"
  by (simp add: process_prompt_fields routing_def app_config_def)


section \<open>The PII check\<close>

lemma pii_count_findings:
  "pii_count (process_prompt cfg lib m p n) = length (analyze lib p ENTITIES ''en'')"
  by (simp add: process_prompt_fields scan_and_redact_def Let_def)

text \<open>
  C6. When the analyzer finds nothing in the prompt, the finding count is 0 and the
  prompt that is sent is the prompt as typed, whatever the compliance mode.
\<close>

theorem no_pii_unchanged:
  assumes "analyze lib prompt ENTITIES ''en'' = []"
  shows "pii_count (process_prompt cfg lib compliance_mode prompt n) = 0
    \<and> final_prompt (process_prompt cfg lib compliance_mode prompt n) = prompt"
  using assms by (simp add: process_prompt_fields scan_and_redact_def pii_check_def Let_def)

theorem no_pii_unchanged_witness:
  "analyze stub_lib ''Summarise the budget'' ENTITIES ''en'' = []
   \<and> pii_count (process_prompt app_config stub_lib STRICT ''Summarise the budget'' 20) = 0
   \<and> final_prompt (process_prompt app_config stub_lib STRICT ''Summarise the budget'' 20)
        = ''Summarise the budget''
   \<and> pii_count (process_prompt app_config stub_lib AUDIT_ONLY ''Summarise the budget'' 20) = 0
   \<and> final_prompt (process_prompt app_config stub_lib AUDIT_ONLY ''Summarise the budget'' 20)
        = ''Summarise the budget''"
proof -
  have h: "analyze stub_lib ''Summarise the budget'' ENTITIES ''en'' = []"
    by (simp add: stub_lib_def)
  show ?thesis
    using h no_pii_unchanged [OF h, of app_config STRICT]
      no_pii_unchanged [OF h, of app_config AUDIT_ONLY]
    by simp
qed

text \<open>
  C4. In the audit-only mode, when the analyzer finds something, the prompt that is
  sent is the prompt as typed; the status shows the logging violation (the audit mark
  of the request) and does not show the redaction message.
\<close>

theorem audit_only_sends_raw:
  assumes "analyze lib prompt ENTITIES ''en'' \<noteq> []"
  shows "final_prompt (process_prompt cfg lib AUDIT_ONLY prompt n) = prompt
    \<and> Logging_Violation \<in> set (status (process_prompt cfg lib AUDIT_ONLY prompt n))
    \<and> PII_Redacted \<notin> set (status (process_prompt cfg lib AUDIT_ONLY prompt n))"
  using assms
  by (simp add: process_prompt_fields scan_and_redact_def pii_check_def Let_def AUDIT_ONLY_def)

theorem audit_only_sends_raw_witness:
  "analyze stub_lib ''Call me at 555-0199'' ENTITIES ''en'' \<noteq> []
   \<and> final_prompt (process_prompt app_config stub_lib AUDIT_ONLY ''Call me at 555-0199'' 19)
        = ''Call me at 555-0199''
   \<and> Logging_Violation
        \<in> set (status (process_prompt app_config stub_lib AUDIT_ONLY ''Call me at 555-0199'' 19))
   \<and> PII_Redacted
        \<notin> set (status (process_prompt app_config stub_lib AUDIT_ONLY ''Call me at 555-0199'' 19))"
proof -
  have h: "analyze stub_lib ''Call me at 555-0199'' ENTITIES ''en'' \<noteq> []"
    by (simp add: stub_lib_def)
  show ?thesis
    using h audit_only_sends_raw [OF h, of app_config] by simp
qed


section \<open>The compliance mode\<close>

text \<open>
  C10. Two runs on the same prompt that differ in the compliance mode only have the
  same token count, the same two costs, the same finding count, the same model and
  reason, the same savings and leave the same savings total; the two decisions are
  equal but for the messages shown and the prompt that is sent. What the two runs of
  the script return is the same but for those two fields: the same exception of line
  70, or two decisions that agree elsewhere.
\<close>

theorem mode_noninterference:
  "tokens (process_prompt cfg lib m1 p n) = tokens (process_prompt cfg lib m2 p n)
   \<and> est_cost_high (process_prompt cfg lib m1 p n) = est_cost_high (process_prompt cfg lib m2 p n)
   \<and> est_cost_actual (process_prompt cfg lib m1 p n) = est_cost_actual (process_prompt cfg lib m2 p n)
   \<and> pii_count (process_prompt cfg lib m1 p n) = pii_count (process_prompt cfg lib m2 p n)
   \<and> model_used (process_prompt cfg lib m1 p n) = model_used (process_prompt cfg lib m2 p n)
   \<and> route_reason (process_prompt cfg lib m1 p n) = route_reason (process_prompt cfg lib m2 p n)
   \<and> savings (process_prompt cfg lib m1 p n) = savings (process_prompt cfg lib m2 p n)
   \<and> snd (script_run cfg lib m1 chat_input st) = snd (script_run cfg lib m2 chat_input st)
   \<and> (process_prompt cfg lib m1 p n)
        \<lparr>status := status (process_prompt cfg lib m2 p n),
         final_prompt := final_prompt (process_prompt cfg lib m2 p n)\<rparr>
      = process_prompt cfg lib m2 p n
   \<and> map_option (map_sum id (\<lambda>d. d\<lparr>status := [], final_prompt := []\<rparr>))
        (fst (script_run cfg lib m1 chat_input st))
      = map_option (map_sum id (\<lambda>d. d\<lparr>status := [], final_prompt := []\<rparr>))
        (fst (script_run cfg lib m2 chat_input st))"
proof -
  have s: "savings (process_prompt cfg lib m1 q k) = savings (process_prompt cfg lib m2 q k)" for q k
    by (simp add: process_prompt_fields)
  have "snd (script_run cfg lib m1 chat_input st) = snd (script_run cfg lib m2 chat_input st)"
    by (cases chat_input) (simp_all add: script_run_def Let_def s split: sum.split)
  moreover have "(process_prompt cfg lib m1 p n)
        \<lparr>status := status (process_prompt cfg lib m2 p n),
         final_prompt := final_prompt (process_prompt cfg lib m2 p n)\<rparr>
      = process_prompt cfg lib m2 p n"
    by (simp add: process_prompt_def Let_def split_def)
  moreover have "map_option (map_sum id (\<lambda>d. d\<lparr>status := [], final_prompt := []\<rparr>))
        (fst (script_run cfg lib m1 chat_input st))
      = map_option (map_sum id (\<lambda>d. d\<lparr>status := [], final_prompt := []\<rparr>))
        (fst (script_run cfg lib m2 chat_input st))"
    by (cases chat_input)
      (simp_all add: script_run_def process_prompt_def Let_def split_def split: sum.split)
  ultimately show ?thesis
    by (simp add: process_prompt_fields)
qed


section \<open>The savings total\<close>

lemma savings_float: "fl (savings (process_prompt cfg lib m p n)) = savings (process_prompt cfg lib m p n)"
  by (simp add: process_prompt_fields(8) fsub_def fl_idem)

lemma savings_nonneg:
  assumes "PRICE_MINI cfg \<le> PRICE_GPT4 cfg"
  shows "0 \<le> savings (process_prompt cfg lib m p n)"
proof -
  have "est_cost n (PRICE_MINI cfg) \<le> est_cost n (PRICE_GPT4 cfg)"
    using assms by (rule est_cost_mono)
  then have "0 \<le> est_cost_high (process_prompt cfg lib m p n) - est_cost_actual (process_prompt cfg lib m p n)"
    by (simp add: process_prompt_fields routing_def)
  then show ?thesis
    unfolding process_prompt_fields(8) fsub_def by (rule fl_nonneg)
qed

lemma first_request:
  assumes "p \<noteq> []" "get_token_count lib p ''gpt-4o'' = Inr n"
  shows "snd (script_run cfg lib m (Some p) new_session) =
    \<lparr>total_savings = Some (savings (process_prompt cfg lib m p n))\<rparr>"
  by (simp add: script_run_prompt [OF assms] new_session_def current_total_def fadd_def
      savings_float)

lemma two_requests:
  assumes "p1 \<noteq> []" "get_token_count lib p1 ''gpt-4o'' = Inr n1"
    and "p2 \<noteq> []" "get_token_count lib p2 ''gpt-4o'' = Inr n2"
  shows "run_session cfg lib [(m1, Some p1), (m2, Some p2)] new_session =
    \<lparr>total_savings = Some (fadd (savings (process_prompt cfg lib m1 p1 n1))
       (savings (process_prompt cfg lib m2 p2 n2)))\<rparr>"
proof -
  have "run_session cfg lib [(m1, Some p1), (m2, Some p2)] new_session
      = snd (script_run cfg lib m2 (Some p2) (snd (script_run cfg lib m1 (Some p1) new_session)))"
    by simp
  also have "\<dots> = snd (script_run cfg lib m2 (Some p2)
      \<lparr>total_savings = Some (savings (process_prompt cfg lib m1 p1 n1))\<rparr>)"
    by (simp only: first_request [OF assms(1,2)])
  also have "\<dots> = \<lparr>total_savings = Some (fadd (savings (process_prompt cfg lib m1 p1 n1))
       (savings (process_prompt cfg lib m2 p2 n2)))\<rparr>"
    by (simp add: script_run_prompt [OF assms(3,4)] current_total_def)
  finally show ?thesis .
qed

lemma fadd_commute: "fadd x y = fadd y x"
  by (simp add: fadd_def add.commute)

lemma run_session_snoc:
  "run_session cfg lib (xs @ [x]) st =
   snd (script_run cfg lib (fst x) (snd x) (run_session cfg lib xs st))"
  by (induction xs arbitrary: st) simp_all

lemma script_run_total:
  "current_total (snd (script_run cfg lib m c st)) = current_total st
   \<or> (\<exists>p n. current_total (snd (script_run cfg lib m c st))
         = fadd (current_total st) (savings (process_prompt cfg lib m p n)))"
  by (cases c) (auto simp add: script_run_def Let_def current_total_def split: sum.split)

lemma script_run_float:
  assumes "fl (current_total st) = current_total st"
  shows "fl (current_total (snd (script_run cfg lib m c st))) = current_total (snd (script_run cfg lib m c st))"
  using script_run_total [of cfg lib m c st] assms by (auto simp add: fadd_def fl_idem)

lemma run_session_float:
  assumes "fl (current_total st) = current_total st"
  shows "fl (current_total (run_session cfg lib xs st)) = current_total (run_session cfg lib xs st)"
  using assms by (induction xs arbitrary: st) (simp_all add: script_run_float)

lemma script_run_grows:
  assumes "PRICE_MINI cfg \<le> PRICE_GPT4 cfg" "fl (current_total st) = current_total st"
  shows "current_total st \<le> current_total (snd (script_run cfg lib m c st))"
proof -
  have "current_total st \<le> fadd (current_total st) (savings (process_prompt cfg lib m p n))" for p n
  proof -
    have "current_total st \<le> current_total st + savings (process_prompt cfg lib m p n)"
      using savings_nonneg [OF assms(1), of lib m p n] by simp
    then have "fl (current_total st) \<le> fadd (current_total st) (savings (process_prompt cfg lib m p n))"
      unfolding fadd_def by (rule fl_mono)
    then show ?thesis
      by (simp only: assms(2))
  qed
  then show ?thesis
    using script_run_total [of cfg lib m c st] by auto
qed

text \<open>
  C5. With the low price not above the high price, the savings of a prompt are the
  high-tier cost minus the cost of the model used, and are not negative. After two
  prompts in a new session, each with its tokens counted, the total is the float sum
  of the two savings, in either order of the two prompts. Along a session the total
  never decreases.
\<close>

theorem savings_accumulation:
  assumes "PRICE_MINI cfg \<le> PRICE_GPT4 cfg"
    and "p1 \<noteq> []" "get_token_count lib p1 ''gpt-4o'' = Inr n1"
    and "p2 \<noteq> []" "get_token_count lib p2 ''gpt-4o'' = Inr n2"
  shows "savings (process_prompt cfg lib m1 p1 n1)
      = fsub (est_cost_high (process_prompt cfg lib m1 p1 n1)) (est_cost_actual (process_prompt cfg lib m1 p1 n1))
    \<and> 0 \<le> savings (process_prompt cfg lib m1 p1 n1)
    \<and> run_session cfg lib [(m1, Some p1), (m2, Some p2)] new_session
      = \<lparr>total_savings = Some (fadd (savings (process_prompt cfg lib m1 p1 n1))
           (savings (process_prompt cfg lib m2 p2 n2)))\<rparr>
    \<and> run_session cfg lib [(m2, Some p2), (m1, Some p1)] new_session
      = run_session cfg lib [(m1, Some p1), (m2, Some p2)] new_session
    \<and> current_total (run_session cfg lib xs new_session)
      \<le> current_total (run_session cfg lib (xs @ [x]) new_session)"
proof (intro conjI)
  show "savings (process_prompt cfg lib m1 p1 n1)
      = fsub (est_cost_high (process_prompt cfg lib m1 p1 n1)) (est_cost_actual (process_prompt cfg lib m1 p1 n1))"
    by (rule process_prompt_fields(8))
  show "0 \<le> savings (process_prompt cfg lib m1 p1 n1)"
    using assms(1) by (rule savings_nonneg)
  show "run_session cfg lib [(m1, Some p1), (m2, Some p2)] new_session
      = \<lparr>total_savings = Some (fadd (savings (process_prompt cfg lib m1 p1 n1))
           (savings (process_prompt cfg lib m2 p2 n2)))\<rparr>"
    using assms(2-5) by (rule two_requests)
  show "run_session cfg lib [(m2, Some p2), (m1, Some p1)] new_session
      = run_session cfg lib [(m1, Some p1), (m2, Some p2)] new_session"
    unfolding two_requests [OF assms(2-5)] two_requests [OF assms(4,5,2,3)]
    by (simp add: fadd_commute)
  have "fl (current_total new_session) = current_total new_session"
    by (simp add: new_session_def current_total_def fl_zero)
  then have "fl (current_total (run_session cfg lib xs new_session))
      = current_total (run_session cfg lib xs new_session)"
    by (rule run_session_float)
  with assms(1) show "current_total (run_session cfg lib xs new_session)
      \<le> current_total (run_session cfg lib (xs @ [x]) new_session)"
    unfolding run_session_snoc by (rule script_run_grows)
qed

theorem savings_accumulation_witness:
  "PRICE_MINI app_config \<le> PRICE_GPT4 app_config
   \<and> ''hello'' \<noteq> [] \<and> get_token_count stub_lib ''hello'' ''gpt-4o'' = Inr 5
   \<and> ''Call me at 555-0199'' \<noteq> []
   \<and> get_token_count stub_lib ''Call me at 555-0199'' ''gpt-4o'' = Inr 19
   \<and> savings (process_prompt app_config stub_lib STRICT ''hello'' 5) = 5506353106002301 / 2 ^ 65
   \<and> 0 \<le> savings (process_prompt app_config stub_lib STRICT ''hello'' 5)
   \<and> run_session app_config stub_lib
         [(STRICT, Some ''hello''), (AUDIT_ONLY, Some ''Call me at 555-0199'')] new_session
       = \<lparr>total_savings = Some (6607623727202761 / 2 ^ 63)\<rparr>
   \<and> run_session app_config stub_lib
         [(AUDIT_ONLY, Some ''Call me at 555-0199''), (STRICT, Some ''hello'')] new_session
       = \<lparr>total_savings = Some (6607623727202761 / 2 ^ 63)\<rparr>
   \<and> current_total (run_session app_config stub_lib [(STRICT, Some ''hello'')] new_session)
       \<le> current_total (run_session app_config stub_lib
             [(STRICT, Some ''hello''), (AUDIT_ONLY, Some ''Call me at 555-0199'')] new_session)"
proof -
  have ord: "PRICE_MINI app_config \<le> PRICE_GPT4 app_config"
    using prices_ordered by simp
  have ne: "''hello'' \<noteq> []" "''Call me at 555-0199'' \<noteq> []"
    by simp_all
  note th = savings_accumulation [OF ord ne(1) stub_count_hello ne(2) stub_count_call,
      of STRICT AUDIT_ONLY "[(STRICT, Some ''hello'')]" "(AUDIT_ONLY, Some ''Call me at 555-0199'')"]
  have v: "fadd (savings (process_prompt app_config stub_lib STRICT ''hello'' 5))
      (savings (process_prompt app_config stub_lib AUDIT_ONLY ''Call me at 555-0199'' 19))
      = 6607623727202761 / 2 ^ 63"
    by (simp only: savings_hello savings_call total_5_19)
  from th have 1: "0 \<le> savings (process_prompt app_config stub_lib STRICT ''hello'' 5)"
    and 2: "run_session app_config stub_lib
         [(STRICT, Some ''hello''), (AUDIT_ONLY, Some ''Call me at 555-0199'')] new_session
       = \<lparr>total_savings = Some (6607623727202761 / 2 ^ 63)\<rparr>"
    and 3: "run_session app_config stub_lib
         [(AUDIT_ONLY, Some ''Call me at 555-0199''), (STRICT, Some ''hello'')] new_session
       = run_session app_config stub_lib
         [(STRICT, Some ''hello''), (AUDIT_ONLY, Some ''Call me at 555-0199'')] new_session"
    and 4: "current_total (run_session app_config stub_lib [(STRICT, Some ''hello'')] new_session)
       \<le> current_total (run_session app_config stub_lib
             ([(STRICT, Some ''hello'')] @ [(AUDIT_ONLY, Some ''Call me at 555-0199'')]) new_session)"
    unfolding v by blast+
  from 4 have 5: "current_total (run_session app_config stub_lib [(STRICT, Some ''hello'')] new_session)
       \<le> current_total (run_session app_config stub_lib
             [(STRICT, Some ''hello''), (AUDIT_ONLY, Some ''Call me at 555-0199'')] new_session)"
    by (simp only: append.simps)
  show ?thesis
    using ord ne(1) stub_count_hello ne(2) stub_count_call savings_hello [of STRICT]
      1 2 3 [unfolded 2] 5
    by (intro conjI)
qed


section \<open>The warn-cost threshold\<close>

lemma process_prompt_warn_cost:
  "process_prompt (cfg\<lparr>WARN_COST := w\<rparr>) lib compliance_mode prompt n =
   process_prompt cfg lib compliance_mode prompt n"
  by (simp add: process_prompt_def routing_def Let_def)

text \<open>
  C9. \<open>WARN_COST\<close> is defined and never read: whatever value it has, a run of the script
  on the same input gives the same decision (token count, costs, finding count, model,
  prompt sent) and the same savings total.
\<close>

theorem warn_cost_never_read:
  "script_run (cfg\<lparr>WARN_COST := w1\<rparr>) lib compliance_mode chat_input st =
   script_run (cfg\<lparr>WARN_COST := w2\<rparr>) lib compliance_mode chat_input st"
  by (cases chat_input)
    (simp_all add: script_run_def process_prompt_warn_cost Let_def split: sum.split)

end
